theory Spec2Isabelle
  imports Main
begin

section \<open>The relational store\<close>

text \<open>
  Both data-access layers keep the same four tables in an SQLite file:
  \<^verbatim>\<open>students(student_id, name, age, email)\<close>,
  \<^verbatim>\<open>instructors(instructor_id, name, age, email)\<close>,
  \<^verbatim>\<open>courses(course_id, course_name, instructor_id)\<close> and the junction table
  (\<^verbatim>\<open>registrations\<close> in \<^verbatim>\<open>database.py\<close>, \<^verbatim>\<open>student_courses\<close> in
  \<^verbatim>\<open>database_pyqt.py\<close>). A table is the list of its rows in insertion order; the
  \<^verbatim>\<open>created_at\<close> and \<^verbatim>\<open>enrolled_at\<close> columns of \<^verbatim>\<open>database_pyqt.py\<close> are
  never read by the code and are left out. Text columns hold strings; the only
  nullable column the code ever writes NULL into is \<^verbatim>\<open>courses.instructor_id\<close>.
\<close>

record student_row =
  s_id :: string
  s_name :: string
  s_age :: int
  s_email :: string

record instructor_row =
  i_id :: string
  i_name :: string
  i_age :: int
  i_email :: string

record course_row =
  c_id :: string
  c_name :: string
  c_instructor :: "string option"

record store =
  students :: "student_row list"
  instructors :: "instructor_row list"
  courses :: "course_row list"
  regs :: "(string \<times> string) list"

text \<open>
  The exceptions that reach the code: \<^verbatim>\<open>sqlite3.IntegrityError\<close> (a subclass of
  \<^verbatim>\<open>sqlite3.Error\<close>) for a violated constraint, \<^verbatim>\<open>OverflowError\<close> when a Python
  integer does not fit SQLite's 64-bit INTEGER, and \<^verbatim>\<open>ValueError\<close> from the
  validating constructors of \<^verbatim>\<open>classes.py\<close>.
\<close>

datatype exn = ValueError | OverflowError | IntegrityError

text \<open>
  A statement either raises or yields the new store together with the cursor's
  \<^verbatim>\<open>rowcount\<close>.
\<close>

type_synonym stmt = "store \<Rightarrow> exn + store \<times> nat"

definition sqlite_int_ok :: "int \<Rightarrow> bool" where
  "sqlite_int_ok a = (- (2 ^ 63) \<le> a \<and> a < 2 ^ 63)"

definition student_ids :: "store \<Rightarrow> string list" where
  "student_ids db = map s_id (students db)"

definition instructor_ids :: "store \<Rightarrow> string list" where
  "instructor_ids db = map i_id (instructors db)"

definition course_ids :: "store \<Rightarrow> string list" where
  "course_ids db = map c_id (courses db)"

subsection \<open>The statements the code executes\<close>

text \<open>
  Each definition is one SQL statement of the source. The flag \<open>fk\<close> says whether the
  connection runs \<^verbatim>\<open>PRAGMA foreign_keys = ON\<close>: \<^verbatim>\<open>database._connect\<close> does,
  \<^verbatim>\<open>DatabaseManager.get_connection\<close> does not, and SQLite then neither checks the
  declared foreign keys nor runs their \<^verbatim>\<open>ON DELETE\<close> actions. The flag \<open>chk\<close> says
  whether the table carries \<^verbatim>\<open>CHECK(age >= 0)\<close> (\<^verbatim>\<open>database.py\<close> only).
\<close>

definition sql_insert_student :: "bool \<Rightarrow> string \<Rightarrow> string \<Rightarrow> int \<Rightarrow> string \<Rightarrow> stmt" where
  \<comment> \<open>\<^verbatim>\<open>INSERT INTO students(student_id, name, age, email) VALUES(?,?,?,?)\<close>\<close>
  "sql_insert_student chk sid nm a em db =
     (if \<not> sqlite_int_ok a then Inl OverflowError
      else if (chk \<and> a < 0) \<or> sid \<in> set (student_ids db)
              \<or> em \<in> set (map s_email (students db)) then Inl IntegrityError
      else Inr (db\<lparr>students := students db @
                  [\<lparr>s_id = sid, s_name = nm, s_age = a, s_email = em\<rparr>]\<rparr>, 1))"

definition sql_update_student :: "bool \<Rightarrow> string \<Rightarrow> string \<Rightarrow> int \<Rightarrow> string \<Rightarrow> stmt" where
  \<comment> \<open>\<^verbatim>\<open>UPDATE students SET name=?, age=?, email=? WHERE student_id=?\<close>\<close>
  "sql_update_student chk sid nm a em db =
     (if \<not> sqlite_int_ok a then Inl OverflowError
      else if sid \<notin> set (student_ids db) then Inr (db, 0)
      else if (chk \<and> a < 0)
              \<or> em \<in> set (map s_email (filter (\<lambda>r. s_id r \<noteq> sid) (students db)))
           then Inl IntegrityError
      else Inr (db\<lparr>students :=
                    map (\<lambda>r. if s_id r = sid then r\<lparr>s_name := nm, s_age := a, s_email := em\<rparr> else r)
                        (students db)\<rparr>,
                length (filter (\<lambda>r. s_id r = sid) (students db))))"

definition sql_delete_student :: "bool \<Rightarrow> string \<Rightarrow> stmt" where
  \<comment> \<open>\<^verbatim>\<open>DELETE FROM students WHERE student_id=?\<close>; with foreign keys on, the junction
      rows of a deleted student go with it (\<^verbatim>\<open>ON DELETE CASCADE\<close>).\<close>
  "sql_delete_student fk sid db =
     Inr (db\<lparr>students := filter (\<lambda>r. s_id r \<noteq> sid) (students db),
             regs := (if fk \<and> sid \<in> set (student_ids db)
                      then filter (\<lambda>p. fst p \<noteq> sid) (regs db) else regs db)\<rparr>,
          length (filter (\<lambda>r. s_id r = sid) (students db)))"

definition sql_delete_instructor :: "bool \<Rightarrow> string \<Rightarrow> stmt" where
  \<comment> \<open>\<^verbatim>\<open>DELETE FROM instructors WHERE instructor_id=?\<close>; with foreign keys on, the
      courses of a deleted instructor lose the reference (\<^verbatim>\<open>ON DELETE SET NULL\<close>).\<close>
  "sql_delete_instructor fk iid db =
     Inr (db\<lparr>instructors := filter (\<lambda>r. i_id r \<noteq> iid) (instructors db),
             courses := (if fk \<and> iid \<in> set (instructor_ids db)
                         then map (\<lambda>c. if c_instructor c = Some iid
                                        then c\<lparr>c_instructor := None\<rparr> else c) (courses db)
                         else courses db)\<rparr>,
          length (filter (\<lambda>r. i_id r = iid) (instructors db)))"

definition sql_delete_regs_of_student :: "string \<Rightarrow> stmt" where
  \<comment> \<open>\<^verbatim>\<open>DELETE FROM student_courses WHERE student_id = ?\<close>\<close>
  "sql_delete_regs_of_student sid db =
     Inr (db\<lparr>regs := filter (\<lambda>p. fst p \<noteq> sid) (regs db)\<rparr>,
          length (filter (\<lambda>p. fst p = sid) (regs db)))"

definition sql_clear_instructor :: "string \<Rightarrow> stmt" where
  \<comment> \<open>\<^verbatim>\<open>UPDATE courses SET instructor_id = NULL WHERE instructor_id = ?\<close>\<close>
  "sql_clear_instructor iid db =
     Inr (db\<lparr>courses := map (\<lambda>c. if c_instructor c = Some iid
                                  then c\<lparr>c_instructor := None\<rparr> else c) (courses db)\<rparr>,
          length (filter (\<lambda>c. c_instructor c = Some iid) (courses db)))"

definition sql_insert_or_ignore_reg :: "bool \<Rightarrow> string \<Rightarrow> string \<Rightarrow> stmt" where
  \<comment> \<open>\<^verbatim>\<open>INSERT OR IGNORE INTO registrations(student_id, course_id) VALUES(?,?)\<close>: a
      primary-key conflict skips the row; a foreign-key violation is not a conflict
      that \<^verbatim>\<open>OR IGNORE\<close> covers and raises.\<close>
  "sql_insert_or_ignore_reg fk sid cid db =
     (if (sid, cid) \<in> set (regs db) then Inr (db, 0)
      else if fk \<and> (sid \<notin> set (student_ids db) \<or> cid \<notin> set (course_ids db))
           then Inl IntegrityError
      else Inr (db\<lparr>regs := regs db @ [(sid, cid)]\<rparr>, 1))"

definition sql_delete_reg :: "string \<Rightarrow> string \<Rightarrow> stmt" where
  \<comment> \<open>\<^verbatim>\<open>DELETE FROM registrations WHERE student_id=? AND course_id=?\<close>\<close>
  "sql_delete_reg sid cid db =
     Inr (db\<lparr>regs := filter (\<lambda>p. p \<noteq> (sid, cid)) (regs db)\<rparr>,
          length (filter (\<lambda>p. p = (sid, cid)) (regs db)))"

definition sql_set_instructor :: "bool \<Rightarrow> string \<Rightarrow> string \<Rightarrow> stmt" where
  \<comment> \<open>\<^verbatim>\<open>UPDATE courses SET instructor_id=? WHERE course_id=?\<close>\<close>
  "sql_set_instructor fk iid cid db =
     (if cid \<notin> set (course_ids db) then Inr (db, 0)
      else if fk \<and> iid \<notin> set (instructor_ids db) then Inl IntegrityError
      else Inr (db\<lparr>courses := map (\<lambda>c. if c_id c = cid
                                        then c\<lparr>c_instructor := Some iid\<rparr> else c) (courses db)\<rparr>,
                length (filter (\<lambda>c. c_id c = cid) (courses db))))"

section \<open>\<^verbatim>\<open>database.py\<close> and the repository layer \<^verbatim>\<open>utils.py\<close>\<close>

definition run :: "stmt \<Rightarrow> store \<Rightarrow> store \<times> nat option" where
  \<comment> \<open>\<^verbatim>\<open>run(query, params, commit=True)\<close>: the cursor on success, \<^verbatim>\<open>None\<close> after
      any exception (the transaction is rolled back).\<close>
  "run q db = (case q db of Inr (db', n) \<Rightarrow> (db', Some n) | Inl e \<Rightarrow> (db, None))"

definition valid_age :: "('v \<Rightarrow> int option) \<Rightarrow> 'v \<Rightarrow> bool" where
  \<comment> \<open>\<^verbatim>\<open>try: a = int(x); return a >= 0  except: return False\<close>\<close>
  "valid_age int_of x = (case int_of x of Some a \<Rightarrow> a \<ge> 0 | None \<Rightarrow> False)"

definition add_student ::
  "('v \<Rightarrow> int option) \<Rightarrow> string \<Rightarrow> 'v \<Rightarrow> string \<Rightarrow> string \<Rightarrow> store \<Rightarrow> store \<times> bool" where
  "add_student int_of name age email student_id db =
     (let age' = (case int_of age of Some a \<Rightarrow> a | None \<Rightarrow> 0);
          (db', ok) = run (sql_insert_student True student_id name age' email) db
      in (db', ok \<noteq> None))"

definition update_student ::
  "('v \<Rightarrow> int option) \<Rightarrow> string \<Rightarrow> string \<Rightarrow> 'v \<Rightarrow> string \<Rightarrow> store \<Rightarrow> store \<times> bool" where
  "update_student int_of student_id name age email db =
     (let age' = (case int_of age of Some a \<Rightarrow> a | None \<Rightarrow> 0);
          (db', ok) = run (sql_update_student True student_id name age' email) db
      in (db', ok \<noteq> None))"

definition delete_student :: "string \<Rightarrow> store \<Rightarrow> store \<times> bool" where
  "delete_student student_id db =
     (let (db', ok) = run (sql_delete_student True student_id) db
      in (db', ok \<noteq> None))"

definition delete_instructor :: "string \<Rightarrow> store \<Rightarrow> store \<times> bool" where
  "delete_instructor instructor_id db =
     (let (db', ok) = run (sql_delete_instructor True instructor_id) db
      in (db', ok \<noteq> None))"

definition fetchone :: "'r list \<Rightarrow> 'r option" where
  "fetchone rows = (case rows of [] \<Rightarrow> None | r # _ \<Rightarrow> Some r)"

definition get_student :: "string \<Rightarrow> store \<Rightarrow> student_row option" where
  \<comment> \<open>\<^verbatim>\<open>SELECT * FROM students WHERE student_id=?\<close>, the row as a dictionary.\<close>
  "get_student student_id db = fetchone (filter (\<lambda>r. s_id r = student_id) (students db))"

definition register_student_to_course :: "string \<Rightarrow> string \<Rightarrow> store \<Rightarrow> store \<times> bool" where
  "register_student_to_course student_id course_id db =
     (let (db', ok) = run (sql_insert_or_ignore_reg True student_id course_id) db
      in (db', ok \<noteq> None))"

definition unregister_student_from_course :: "string \<Rightarrow> string \<Rightarrow> store \<Rightarrow> store \<times> bool" where
  "unregister_student_from_course student_id course_id db =
     (let (db', ok) = run (sql_delete_reg student_id course_id) db
      in (db', ok \<noteq> None))"

definition assign_instructor_to_course :: "string \<Rightarrow> string \<Rightarrow> store \<Rightarrow> store \<times> bool" where
  "assign_instructor_to_course instructor_id course_id db =
     (let (db', ok) = run (sql_set_instructor True instructor_id course_id) db
      in (db', ok \<noteq> None))"

section \<open>\<^verbatim>\<open>classes.py\<close>: the validating constructors\<close>

text \<open>
  A Python string is modelled as the list of its code points, each below 256.
  \<^verbatim>\<open>str.strip()\<close> removes the characters for which \<^verbatim>\<open>str.isspace\<close> holds; in that
  range these are U+0009 to U+000D, U+001C to U+0020, U+0085 and U+00A0.
\<close>

definition py_isspace :: "char \<Rightarrow> bool" where
  "py_isspace c = (let n = (of_char c :: nat)
                   in (9 \<le> n \<and> n \<le> 13) \<or> (28 \<le> n \<and> n \<le> 32) \<or> n = 133 \<or> n = 160)"

definition strip :: "string \<Rightarrow> string" where
  "strip s = rev (dropWhile py_isspace (rev (dropWhile py_isspace s)))"

text \<open>
  The pattern of \<^verbatim>\<open>Person.valid_email\<close> is kept as a value and matched by
  derivatives. \<^verbatim>\<open>re.match\<close> anchors at the start; the final \<^verbatim>\<open>$\<close> matches at the
  end of the string and also just before a newline that ends it.
\<close>

datatype rexp =
    Nothing
  | Empty
  | Class "char \<Rightarrow> bool"
  | Either rexp rexp
  | Then rexp rexp
  | Many rexp

fun empty_ok :: "rexp \<Rightarrow> bool" where
  "empty_ok Nothing = False"
| "empty_ok Empty = True"
| "empty_ok (Class p) = False"
| "empty_ok (Either r s) = (empty_ok r \<or> empty_ok s)"
| "empty_ok (Then r s) = (empty_ok r \<and> empty_ok s)"
| "empty_ok (Many r) = True"

fun after :: "char \<Rightarrow> rexp \<Rightarrow> rexp" where
  "after c Nothing = Nothing"
| "after c Empty = Nothing"
| "after c (Class p) = (if p c then Empty else Nothing)"
| "after c (Either r s) = Either (after c r) (after c s)"
| "after c (Then r s) =
     (if empty_ok r then Either (Then (after c r) s) (after c s) else Then (after c r) s)"
| "after c (Many r) = Then (after c r) (Many r)"

definition full_match :: "rexp \<Rightarrow> string \<Rightarrow> bool" where
  "full_match r s = empty_ok (foldl (\<lambda>q c. after c q) r s)"

definition match_to_dollar :: "rexp \<Rightarrow> string \<Rightarrow> bool" where
  \<comment> \<open>\<^verbatim>\<open>re.match('^...$', s)\<close> without \<^verbatim>\<open>re.MULTILINE\<close>\<close>
  "match_to_dollar r s =
     (full_match r s \<or> (s \<noteq> [] \<and> last s = CHR 0x0A \<and> full_match r (butlast s)))"

definition one_or_more :: "rexp \<Rightarrow> rexp" where
  "one_or_more r = Then r (Many r)"

definition in_range :: "char \<Rightarrow> char \<Rightarrow> char \<Rightarrow> bool" where
  "in_range lo hi c = ((of_char lo :: nat) \<le> of_char c \<and> (of_char c :: nat) \<le> of_char hi)"

definition alpha :: "char \<Rightarrow> bool" where
  \<comment> \<open>\<^verbatim>\<open>[a-zA-Z]\<close>\<close>
  "alpha c = (in_range CHR ''a'' CHR ''z'' c \<or> in_range CHR ''A'' CHR ''Z'' c)"

definition alnum :: "char \<Rightarrow> bool" where
  \<comment> \<open>\<^verbatim>\<open>[a-zA-Z0-9]\<close>\<close>
  "alnum c = (alpha c \<or> in_range CHR ''0'' CHR ''9'' c)"

definition email_pattern :: rexp where
  \<comment> \<open>\<^verbatim>\<open>^[a-zA-Z0-9._%+-]+@[a-zA-Z0-9.-]+\.[a-zA-Z]{2,}$\<close>\<close>
  "email_pattern =
     Then (one_or_more (Class (\<lambda>c. alnum c \<or> c \<in> set ''._%+-'')))
    (Then (Class (\<lambda>c. c = CHR ''@''))
    (Then (one_or_more (Class (\<lambda>c. alnum c \<or> c \<in> set ''.-'')))
    (Then (Class (\<lambda>c. c = CHR ''.''))
    (Then (Class alpha) (Then (Class alpha) (Many (Class alpha)))))))"

text \<open>
  The arguments are typed as the annotations of the source say (\<^verbatim>\<open>str\<close>, \<^verbatim>\<open>int\<close>),
  so the \<^verbatim>\<open>isinstance\<close> tests hold and only the second half of each check remains.
\<close>

definition Person_valid_name :: "string \<Rightarrow> exn + string" where
  "Person_valid_name name = (if strip name = [] then Inl ValueError else Inr (strip name))"

definition Person_valid_age :: "int \<Rightarrow> exn + int" where
  "Person_valid_age age = (if age < 0 then Inl ValueError else Inr age)"

definition Person_valid_email :: "string \<Rightarrow> exn + string" where
  "Person_valid_email email =
     (if \<not> match_to_dollar email_pattern email then Inl ValueError else Inr email)"

definition Student_valid_student_id :: "string \<Rightarrow> exn + string" where
  "Student_valid_student_id student_id =
     (if strip student_id = [] then Inl ValueError else Inr (strip student_id))"

text \<open>
  The objects: \<^verbatim>\<open>Student\<close> and \<^verbatim>\<open>Instructor\<close> extend \<^verbatim>\<open>Person\<close>. A \<^verbatim>\<open>Course\<close>
  loaded for a student's \<^verbatim>\<open>registered_courses\<close> keeps the empty
  \<^verbatim>\<open>enrolled_students\<close> list its constructor sets, and its instructor the empty
  \<^verbatim>\<open>assigned_courses\<close>; these two always-empty lists are not fields of the records.
\<close>

record person =
  name :: string
  age :: int
  email :: string

record instructor = person +
  instructor_id :: string

record course =
  course_id :: string
  course_name :: string
  instructor :: "instructor option"

record student = person +
  student_id :: string
  registered_courses :: "course list"

definition Student_init :: "string \<Rightarrow> int \<Rightarrow> string \<Rightarrow> string \<Rightarrow> exn + student" where
  \<comment> \<open>\<^verbatim>\<open>Student(name, age, email, student_id)\<close>: the checks run in this order and the
      first failure raises.\<close>
  "Student_init nm ag em sid =
     (case Person_valid_name nm of Inl e \<Rightarrow> Inl e | Inr n \<Rightarrow>
     (case Person_valid_age ag of Inl e \<Rightarrow> Inl e | Inr a \<Rightarrow>
     (case Person_valid_email em of Inl e \<Rightarrow> Inl e | Inr m \<Rightarrow>
     (case Student_valid_student_id sid of Inl e \<Rightarrow> Inl e | Inr i \<Rightarrow>
        Inr \<lparr>name = n, age = a, email = m, student_id = i, registered_courses = []\<rparr>))))"

definition Instructor_init :: "string \<Rightarrow> int \<Rightarrow> string \<Rightarrow> string \<Rightarrow> exn + instructor" where
  "Instructor_init nm ag em iid =
     (case Person_valid_name nm of Inl e \<Rightarrow> Inl e | Inr n \<Rightarrow>
     (case Person_valid_age ag of Inl e \<Rightarrow> Inl e | Inr a \<Rightarrow>
     (case Person_valid_email em of Inl e \<Rightarrow> Inl e | Inr m \<Rightarrow>
        if strip iid = [] then Inl ValueError
        else Inr \<lparr>name = n, age = a, email = m, instructor_id = strip iid\<rparr>)))"

definition Course_init :: "string \<Rightarrow> string \<Rightarrow> instructor option \<Rightarrow> exn + course" where
  "Course_init cid cname ins =
     (if strip cid = [] then Inl ValueError
      else if strip cname = [] then Inl ValueError
      else Inr \<lparr>course_id = strip cid, course_name = strip cname, instructor = ins\<rparr>)"

section \<open>\<^verbatim>\<open>database_pyqt.py\<close>: \<^verbatim>\<open>DatabaseManager\<close>\<close>

text \<open>
  Every method opens \<^verbatim>\<open>with self.get_connection() as conn\<close> inside
  \<^verbatim>\<open>try ... except sqlite3.Error\<close>: an \<^verbatim>\<open>IntegrityError\<close> rolls the transaction
  back and the method returns \<^verbatim>\<open>False\<close>; any other exception leaves the method.
\<close>

definition DatabaseManager_register_student_in_course ::
  "string \<Rightarrow> string \<Rightarrow> store \<Rightarrow> store \<times> bool" where
  "DatabaseManager_register_student_in_course sid cid db =
     (case sql_insert_or_ignore_reg False sid cid db of
        Inr (db', rowcount) \<Rightarrow> (db', rowcount > 0)
      | Inl e \<Rightarrow> (db, False))"

definition DatabaseManager_unregister_student_from_course ::
  "string \<Rightarrow> string \<Rightarrow> store \<Rightarrow> store \<times> bool" where
  "DatabaseManager_unregister_student_from_course sid cid db =
     (case sql_delete_reg sid cid db of
        Inr (db', rowcount) \<Rightarrow> (db', rowcount > 0)
      | Inl e \<Rightarrow> (db, False))"

definition DatabaseManager_delete_student :: "string \<Rightarrow> store \<Rightarrow> store \<times> bool" where
  \<comment> \<open>Two statements in one transaction; \<^verbatim>\<open>rowcount\<close> is that of the second.\<close>
  "DatabaseManager_delete_student sid db =
     (case sql_delete_regs_of_student sid db of
        Inl e \<Rightarrow> (db, False)
      | Inr (db1, n1) \<Rightarrow>
          (case sql_delete_student False sid db1 of
             Inl e \<Rightarrow> (db, False)
           | Inr (db2, rowcount) \<Rightarrow> (db2, rowcount > 0)))"

definition DatabaseManager_delete_instructor :: "string \<Rightarrow> store \<Rightarrow> store \<times> bool" where
  "DatabaseManager_delete_instructor iid db =
     (case sql_clear_instructor iid db of
        Inl e \<Rightarrow> (db, False)
      | Inr (db1, n1) \<Rightarrow>
          (case sql_delete_instructor False iid db1 of
             Inl e \<Rightarrow> (db, False)
           | Inr (db2, rowcount) \<Rightarrow> (db2, rowcount > 0)))"

text \<open>
  \<^verbatim>\<open>assign_instructor_to_course\<close> tells its two refusals apart only by the line it
  prints; the model returns the printed lines next to the boolean.
\<close>

datatype printed =
    InstructorAlreadyAssigned string string
  | CourseAlreadyHasInstructor string "string option"
  | ErrorAssigning

definition DatabaseManager_assign_instructor_to_course ::
  "string \<Rightarrow> string \<Rightarrow> store \<Rightarrow> store \<times> printed list \<times> bool" where
  "DatabaseManager_assign_instructor_to_course iid cid db =
     (case fetchone (map c_id (filter (\<lambda>c. c_instructor c = Some iid
                                            \<and> c_id c \<noteq> cid) (courses db))) of
        Some existing_course \<Rightarrow>
          (db, [InstructorAlreadyAssigned iid existing_course], False)
      | None \<Rightarrow>
          (case fetchone (map c_instructor (filter (\<lambda>c. c_id c = cid
                                                     \<and> c_instructor c \<noteq> None) (courses db))) of
             Some existing_instructor \<Rightarrow>
               (db, [CourseAlreadyHasInstructor cid existing_instructor], False)
           | None \<Rightarrow>
               (case sql_set_instructor False iid cid db of
                  Inr (db', rowcount) \<Rightarrow> (db', [], rowcount > 0)
                | Inl e \<Rightarrow> (db, [ErrorAssigning], False))))"

definition DatabaseManager_add_student :: "student \<Rightarrow> store \<Rightarrow> exn + store \<times> bool" where
  \<comment> \<open>\<^verbatim>\<open>except sqlite3.Error\<close> catches the constraint violation only; an
      \<^verbatim>\<open>OverflowError\<close> raised while binding the age leaves the method.\<close>
  "DatabaseManager_add_student st db =
     (case sql_insert_student False (student_id st) (name st) (age st) (email st) db of
        Inr (db', rowcount) \<Rightarrow> Inr (db', True)
      | Inl IntegrityError \<Rightarrow> Inr (db, False)
      | Inl e \<Rightarrow> Inl e)"

text \<open>
  The two joins that load relationship lists. SQL leaves the order of the result
  rows open; the model lists them in table order.
\<close>

definition joined_instructor :: "store \<Rightarrow> course_row \<Rightarrow> instructor_row option list" where
  \<comment> \<open>\<^verbatim>\<open>courses c LEFT JOIN instructors i ON c.instructor_id = i.instructor_id\<close>\<close>
  "joined_instructor db c =
     (case filter (\<lambda>i. Some (i_id i) = c_instructor c) (instructors db) of
        [] \<Rightarrow> [None]
      | i # others \<Rightarrow> map Some (i # others))"

definition sql_student_courses :: "string \<Rightarrow> store \<Rightarrow> (course_row \<times> instructor_row option) list" where
  \<comment> \<open>\<^verbatim>\<open>... JOIN student_courses sc ON c.course_id = sc.course_id WHERE sc.student_id = ?\<close>\<close>
  "sql_student_courses sid db =
     concat (map (\<lambda>c. concat (map (\<lambda>i. map (\<lambda>p. (c, i))
                                           (filter (\<lambda>p. p = (sid, c_id c)) (regs db)))
                                 (joined_instructor db c)))
                 (courses db))"

definition sql_course_students :: "string \<Rightarrow> store \<Rightarrow> student_row list" where
  \<comment> \<open>\<^verbatim>\<open>SELECT s.student_id, s.name, s.age, s.email FROM students s
      JOIN student_courses sc ON s.student_id = sc.student_id WHERE sc.course_id = ?\<close>\<close>
  "sql_course_students cid db =
     concat (map (\<lambda>s. map (\<lambda>p. s) (filter (\<lambda>p. p = (s_id s, cid)) (regs db)))
                 (students db))"

fun load_all :: "('r \<Rightarrow> exn + 'a) \<Rightarrow> 'r list \<Rightarrow> exn + 'a list" where
  \<comment> \<open>\<^verbatim>\<open>for row in rows: ... append(...)\<close>, left by the first constructor that raises\<close>
  "load_all f [] = Inr []"
| "load_all f (r # rs) =
     (case f r of
        Inl e \<Rightarrow> Inl e
      | Inr x \<Rightarrow> (case load_all f rs of Inl e \<Rightarrow> Inl e | Inr xs \<Rightarrow> Inr (x # xs)))"

definition course_of_row :: "course_row \<times> instructor_row option \<Rightarrow> exn + course" where
  \<comment> \<open>\<^verbatim>\<open>if row[2]: instructor = Instructor(row[3], row[4], row[5], row[6])\<close>, where an
      unmatched left join gives \<^verbatim>\<open>None\<close> in all four and the constructor raises;
      then \<^verbatim>\<open>Course(row[0], row[1], instructor)\<close>.\<close>
  "course_of_row row =
     (case row of (c, i) \<Rightarrow>
        if c_instructor c \<noteq> None \<and> c_instructor c \<noteq> Some []
        then (case i of
                None \<Rightarrow> Inl ValueError
              | Some r \<Rightarrow>
                  (case Instructor_init (i_name r) (i_age r) (i_email r) (i_id r) of
                     Inl e \<Rightarrow> Inl e
                   | Inr ins \<Rightarrow> Course_init (c_id c) (c_name c) (Some ins)))
        else Course_init (c_id c) (c_name c) None)"

definition DatabaseManager_get_student_courses :: "string \<Rightarrow> store \<Rightarrow> exn + course list" where
  "DatabaseManager_get_student_courses sid db = load_all course_of_row (sql_student_courses sid db)"

definition DatabaseManager_get_student :: "string \<Rightarrow> store \<Rightarrow> exn + student option" where
  "DatabaseManager_get_student sid db =
     (case fetchone (filter (\<lambda>r. s_id r = sid) (students db)) of
        None \<Rightarrow> Inr None
      | Some row \<Rightarrow>
          (case Student_init (s_name row) (s_age row) (s_email row) (s_id row) of
             Inl e \<Rightarrow> Inl e
           | Inr st \<Rightarrow>
               (case DatabaseManager_get_student_courses sid db of
                  Inl e \<Rightarrow> Inl e
                | Inr cs \<Rightarrow> Inr (Some (st\<lparr>registered_courses := cs\<rparr>)))))"

section \<open>Example stores and inputs\<close>

definition school :: store where
  \<comment> \<open>one student, one instructor, two courses without instructor, nobody enrolled\<close>
  "school =
     \<lparr>students = [\<lparr>s_id = ''S1'', s_name = ''Ann'', s_age = 20, s_email = ''ann@x.com''\<rparr>],
      instructors = [\<lparr>i_id = ''I1'', i_name = ''Bob'', i_age = 40, i_email = ''bob@x.com''\<rparr>],
      courses = [\<lparr>c_id = ''C1'', c_name = ''Algo'', c_instructor = None\<rparr>,
                 \<lparr>c_id = ''C2'', c_name = ''Logic'', c_instructor = None\<rparr>],
      regs = []\<rparr>"

definition school_taught :: store where
  \<comment> \<open>\<open>school\<close> after \<open>I1\<close> was given \<open>C1\<close> and \<open>S1\<close> enrolled in \<open>C1\<close>\<close>
  "school_taught =
     \<lparr>students = [\<lparr>s_id = ''S1'', s_name = ''Ann'', s_age = 20, s_email = ''ann@x.com''\<rparr>],
      instructors = [\<lparr>i_id = ''I1'', i_name = ''Bob'', i_age = 40, i_email = ''bob@x.com''\<rparr>],
      courses = [\<lparr>c_id = ''C1'', c_name = ''Algo'', c_instructor = Some ''I1''\<rparr>,
                 \<lparr>c_id = ''C2'', c_name = ''Logic'', c_instructor = None\<rparr>],
      regs = [(''S1'', ''C1'')]\<rparr>"

definition empty_store :: store where
  "empty_store = \<lparr>students = [], instructors = [], courses = [], regs = []\<rparr>"

fun digits_value :: "string \<Rightarrow> nat \<Rightarrow> nat option" where
  "digits_value [] acc = Some acc"
| "digits_value (c # cs) acc =
     (if in_range CHR ''0'' CHR ''9'' c
      then digits_value cs (10 * acc + (of_char c - 48)) else None)"

definition int_of_text :: "string \<Rightarrow> int option" where
  \<comment> \<open>Python's \<^verbatim>\<open>int(s)\<close> on an optional sign followed by ASCII digits. Python also
      accepts surrounding white space and single underscores between digits, which
      this reading rejects; the operations take the conversion as a parameter and
      the theorems hold for every such function.\<close>
  "int_of_text s =
     (case s of
        [] \<Rightarrow> None
      | c # cs \<Rightarrow>
          if c = CHR ''-'' then (if cs = [] then None
                                 else map_option (\<lambda>n. - int n) (digits_value cs 0))
          else if c = CHR ''+'' then (if cs = [] then None
                                      else map_option int (digits_value cs 0))
          else map_option int (digits_value s 0))"

section \<open>Helper facts\<close>

lemma filter_absent: "x \<notin> set xs \<Longrightarrow> filter (\<lambda>p. p \<noteq> x) xs = xs"
  by (induction xs) auto

lemma filter_absent_eq: "x \<notin> set xs \<Longrightarrow> filter (\<lambda>p. p = x) xs = []"
  by (induction xs) auto

lemma fetchone_filter_member:
  assumes "x \<in> set xs" and "P x"
  obtains y where "y \<in> set xs" and "P y" and "fetchone (map f (filter P xs)) = Some (f y)"
proof -
  from assms have "filter P xs \<noteq> []" by (auto simp: filter_empty_conv)
  then obtain y ys where e: "filter P xs = y # ys" by (cases "filter P xs") auto
  then have "y \<in> set (filter P xs)" by simp
  then have "y \<in> set xs" and "P y" by simp_all
  moreover from e have "fetchone (map f (filter P xs)) = Some (f y)" by (simp add: fetchone_def)
  ultimately show thesis by (rule that)
qed

lemma filter_distinct_key:
  assumes "distinct (map f xs)" and "x \<in> set xs"
  shows "filter (\<lambda>y. f y = f x \<and> Q y) xs = (if Q x then [x] else [])"
  using assms
proof (induction xs)
  case Nil
  then show ?case by simp
next
  case (Cons y ys)
  show ?case
  proof (cases "y = x")
    case True
    with Cons.prems have "\<forall>z \<in> set ys. f z \<noteq> f x" by (auto simp: image_iff)
    then have "filter (\<lambda>y. f y = f x \<and> Q y) ys = []" by (auto simp: filter_empty_conv)
    with True show ?thesis by simp
  next
    case False
    with Cons.prems have "x \<in> set ys" and "f y \<noteq> f x" and "distinct (map f ys)"
      by (auto simp: image_iff)
    with Cons.IH show ?thesis by simp
  qed
qed

section \<open>Enrolment\<close>

text \<open>
  The repository layer enrols idempotently: a new pair of a stored student and a stored
  course is appended, and a pair that is already there is left alone; both calls
  return \<^verbatim>\<open>True\<close>. With a missing student or course the foreign key rejects the
  insert and the call returns \<^verbatim>\<open>False\<close>.
\<close>

lemma register_student_to_course_new:
  "sid \<in> set (student_ids db) \<Longrightarrow> cid \<in> set (course_ids db) \<Longrightarrow> (sid, cid) \<notin> set (regs db)
   \<Longrightarrow> register_student_to_course sid cid db = (db\<lparr>regs := regs db @ [(sid, cid)]\<rparr>, True)"
  by (simp add: register_student_to_course_def run_def sql_insert_or_ignore_reg_def)

lemma register_student_to_course_again:
  "(sid, cid) \<in> set (regs db) \<Longrightarrow> register_student_to_course sid cid db = (db, True)"
  by (simp add: register_student_to_course_def run_def sql_insert_or_ignore_reg_def)

lemma register_student_to_course_missing:
  "sid \<notin> set (student_ids db) \<or> cid \<notin> set (course_ids db) \<Longrightarrow> (sid, cid) \<notin> set (regs db)
   \<Longrightarrow> register_student_to_course sid cid db = (db, False)"
  by (auto simp add: register_student_to_course_def run_def sql_insert_or_ignore_reg_def)

text \<open>
  \<^verbatim>\<open>DatabaseManager.register_student_in_course\<close> returns \<^verbatim>\<open>cursor.rowcount > 0\<close>
  and never consults the two parent tables.
\<close>

lemma DatabaseManager_register_again:
  "(sid, cid) \<in> set (regs db) \<Longrightarrow>
   DatabaseManager_register_student_in_course sid cid db = (db, False)"
  by (simp add: DatabaseManager_register_student_in_course_def sql_insert_or_ignore_reg_def)

lemma DatabaseManager_register_new:
  "(sid, cid) \<notin> set (regs db) \<Longrightarrow>
   DatabaseManager_register_student_in_course sid cid db
     = (db\<lparr>regs := regs db @ [(sid, cid)]\<rparr>, True)"
  by (simp add: DatabaseManager_register_student_in_course_def sql_insert_or_ignore_reg_def)

text \<open>
  Claim C1. Enrolling the stored student \<open>S1\<close> in the stored course \<open>C1\<close> twice through
  \<^verbatim>\<open>DatabaseManager.register_student_in_course\<close> leaves exactly one pair, but only the
  first call returns \<^verbatim>\<open>True\<close>: the second, ignored insert has \<^verbatim>\<open>rowcount\<close> 0 and the
  method returns \<^verbatim>\<open>False\<close>, which its caller shows as a failure.
\<close>

theorem enroll_twice_DatabaseManager:
  "DatabaseManager_register_student_in_course ''S1'' ''C1'' school
     = (school\<lparr>regs := [(''S1'', ''C1'')]\<rparr>, True)
   \<and> DatabaseManager_register_student_in_course ''S1'' ''C1'' (school\<lparr>regs := [(''S1'', ''C1'')]\<rparr>)
     = (school\<lparr>regs := [(''S1'', ''C1'')]\<rparr>, False)"
  by (simp add: DatabaseManager_register_student_in_course_def sql_insert_or_ignore_reg_def school_def)

text \<open>
  Claim C7. \<open>S9\<close> is not a stored student, yet
  \<^verbatim>\<open>DatabaseManager.register_student_in_course\<close> inserts the pair \<open>(S9, C1)\<close> and returns
  \<^verbatim>\<open>True\<close>: its connection never turns foreign keys on.
\<close>

theorem enroll_absent_student_DatabaseManager:
  "''S9'' \<notin> set (student_ids school)
   \<and> DatabaseManager_register_student_in_course ''S9'' ''C1'' school
     = (school\<lparr>regs := [(''S9'', ''C1'')]\<rparr>, True)"
  by (simp add: DatabaseManager_register_student_in_course_def sql_insert_or_ignore_reg_def
      school_def student_ids_def)

text \<open>
  Claim C8, as stated, fails for the repository layer: \<open>S1\<close> is not enrolled in \<open>C2\<close>,
  and \<^verbatim>\<open>utils.unregister_student_from_course\<close> returns \<^verbatim>\<open>True\<close>.
\<close>

theorem unenroll_absent_pair_counterexample:
  "(''S1'', ''C2'') \<notin> set (regs school_taught)
   \<and> unregister_student_from_course ''S1'' ''C2'' school_taught = (school_taught, True)"
  by (simp add: unregister_student_from_course_def run_def sql_delete_reg_def school_taught_def)

text \<open>
  Claim C8, amended. Removing a pair that is not in the relation leaves the store
  unchanged in both layers; \<^verbatim>\<open>DatabaseManager.unregister_student_from_course\<close> returns
  \<^verbatim>\<open>False\<close>, \<^verbatim>\<open>utils.unregister_student_from_course\<close> returns \<^verbatim>\<open>True\<close>.
\<close>

theorem unenroll_absent_pair:
  assumes "(sid, cid) \<notin> set (regs db)"
  shows "unregister_student_from_course sid cid db = (db, True)
         \<and> DatabaseManager_unregister_student_from_course sid cid db = (db, False)"
  using assms
  by (simp add: unregister_student_from_course_def
      DatabaseManager_unregister_student_from_course_def run_def sql_delete_reg_def
      filter_absent filter_absent_eq)

theorem unenroll_absent_pair_witness:
  "(''S1'', ''C2'') \<notin> set (regs school_taught)
   \<and> unregister_student_from_course ''S1'' ''C2'' school_taught = (school_taught, True)
   \<and> DatabaseManager_unregister_student_from_course ''S1'' ''C2'' school_taught
       = (school_taught, False)"
proof -
  have h: "(''S1'', ''C2'') \<notin> set (regs school_taught)" by (simp add: school_taught_def)
  show ?thesis using h unenroll_absent_pair [OF h] by simp
qed

section \<open>Assigning an instructor\<close>

text \<open>
  Claim C2, as stated, fails for the repository layer: \<open>I1\<close> teaches \<open>C1\<close>, and
  \<^verbatim>\<open>utils.assign_instructor_to_course\<close> gives \<open>C2\<close> to \<open>I1\<close> as well and returns
  \<^verbatim>\<open>True\<close>.
\<close>

theorem assign_elsewhere_counterexample:
  "c_instructor (hd (courses school_taught)) = Some ''I1''
   \<and> c_id (hd (courses school_taught)) = ''C1''
   \<and> assign_instructor_to_course ''I1'' ''C2'' school_taught
     = (school_taught\<lparr>courses :=
          [\<lparr>c_id = ''C1'', c_name = ''Algo'', c_instructor = Some ''I1''\<rparr>,
           \<lparr>c_id = ''C2'', c_name = ''Logic'', c_instructor = Some ''I1''\<rparr>]\<rparr>, True)"
  by (simp add: assign_instructor_to_course_def run_def sql_set_instructor_def school_taught_def
      course_ids_def instructor_ids_def)

text \<open>
  Claim C2, amended. If a course other than \<open>cid\<close> holds the instructor \<open>iid\<close>, then
  \<^verbatim>\<open>DatabaseManager.assign_instructor_to_course\<close> prints that the instructor is already
  assigned to such a course, returns \<^verbatim>\<open>False\<close> and leaves the store unchanged. The
  repository layer has no such rule: for a stored instructor and a stored course
  \<^verbatim>\<open>utils.assign_instructor_to_course\<close> sets the slot and returns \<^verbatim>\<open>True\<close>.
\<close>

theorem assign_elsewhere:
  assumes "c \<in> set (courses db)" and "c_instructor c = Some iid" and "c_id c \<noteq> cid"
  shows "(\<exists>other. other \<noteq> cid \<and>
            DatabaseManager_assign_instructor_to_course iid cid db
              = (db, [InstructorAlreadyAssigned iid other], False))
         \<and> (iid \<in> set (instructor_ids db) \<and> cid \<in> set (course_ids db) \<longrightarrow>
              assign_instructor_to_course iid cid db
                = (db\<lparr>courses := map (\<lambda>c. if c_id c = cid then c\<lparr>c_instructor := Some iid\<rparr> else c)
                                     (courses db)\<rparr>, True))"
proof
  let ?P = "\<lambda>c. c_instructor c = Some iid \<and> c_id c \<noteq> cid"
  from assms have "?P c" by simp
  with assms(1) obtain y :: course_row
    where "?P y" and "fetchone (map c_id (filter ?P (courses db))) = Some (c_id y)"
    by (rule fetchone_filter_member [where f = c_id]) blast
  then show "\<exists>other. other \<noteq> cid \<and>
            DatabaseManager_assign_instructor_to_course iid cid db
              = (db, [InstructorAlreadyAssigned iid other], False)"
    by (auto simp: DatabaseManager_assign_instructor_to_course_def)
next
  show "iid \<in> set (instructor_ids db) \<and> cid \<in> set (course_ids db) \<longrightarrow>
              assign_instructor_to_course iid cid db
                = (db\<lparr>courses := map (\<lambda>c. if c_id c = cid then c\<lparr>c_instructor := Some iid\<rparr> else c)
                                     (courses db)\<rparr>, True)"
    by (simp add: assign_instructor_to_course_def run_def sql_set_instructor_def)
qed

theorem assign_elsewhere_witness:
  "\<lparr>c_id = ''C1'', c_name = ''Algo'', c_instructor = Some ''I1''\<rparr> \<in> set (courses school_taught)
   \<and> DatabaseManager_assign_instructor_to_course ''I1'' ''C2'' school_taught
       = (school_taught, [InstructorAlreadyAssigned ''I1'' ''C1''], False)
   \<and> ''I1'' \<in> set (instructor_ids school_taught) \<and> ''C2'' \<in> set (course_ids school_taught)
   \<and> assign_instructor_to_course ''I1'' ''C2'' school_taught
       = (school_taught\<lparr>courses :=
            map (\<lambda>c. if c_id c = ''C2'' then c\<lparr>c_instructor := Some ''I1''\<rparr> else c)
                (courses school_taught)\<rparr>, True)"
proof -
  have h: "\<lparr>c_id = ''C1'', c_name = ''Algo'', c_instructor = Some ''I1''\<rparr> \<in> set (courses school_taught)"
    by (simp add: school_taught_def)
  have k: "''I1'' \<in> set (instructor_ids school_taught) \<and> ''C2'' \<in> set (course_ids school_taught)"
    by (simp add: school_taught_def instructor_ids_def course_ids_def)
  have e: "DatabaseManager_assign_instructor_to_course ''I1'' ''C2'' school_taught
       = (school_taught, [InstructorAlreadyAssigned ''I1'' ''C1''], False)"
    by (simp add: DatabaseManager_assign_instructor_to_course_def school_taught_def fetchone_def)
  show ?thesis
    using h k e assign_elsewhere [OF h, of "''I1''" "''C2''"] by simp
qed

text \<open>
  Claim C3, as stated, fails: \<open>C1\<close> already holds \<open>I1\<close>, and assigning \<open>I1\<close> to \<open>C1\<close>
  again is refused with the line that the course already has an instructor.
\<close>

theorem reassign_same_counterexample:
  "c_instructor (hd (courses school_taught)) = Some ''I1''
   \<and> c_id (hd (courses school_taught)) = ''C1''
   \<and> DatabaseManager_assign_instructor_to_course ''I1'' ''C1'' school_taught
     = (school_taught, [CourseAlreadyHasInstructor ''C1'' (Some ''I1'')], False)"
  by (simp add: DatabaseManager_assign_instructor_to_course_def school_taught_def fetchone_def)

text \<open>
  Claim C3, amended. If the slot of the course \<open>cid\<close> already holds \<open>iid\<close>, then
  \<^verbatim>\<open>DatabaseManager.assign_instructor_to_course\<close> prints one of its two refusals,
  returns \<^verbatim>\<open>False\<close> and leaves the store unchanged. With distinct course ids and
  no other course holding \<open>iid\<close>, the refusal is that the course already has this
  instructor.
\<close>

theorem reassign_same:
  assumes "c \<in> set (courses db)" and "c_id c = cid" and "c_instructor c = Some iid"
  shows "(\<exists>line. line \<noteq> ErrorAssigning \<and>
            DatabaseManager_assign_instructor_to_course iid cid db = (db, [line], False))
         \<and> (distinct (course_ids db)
              \<and> filter (\<lambda>c. c_instructor c = Some iid \<and> c_id c \<noteq> cid) (courses db) = [] \<longrightarrow>
            DatabaseManager_assign_instructor_to_course iid cid db
              = (db, [CourseAlreadyHasInstructor cid (Some iid)], False))"
proof
  show "\<exists>line. line \<noteq> ErrorAssigning \<and>
            DatabaseManager_assign_instructor_to_course iid cid db = (db, [line], False)"
  proof (cases "fetchone (map c_id (filter (\<lambda>c. c_instructor c = Some iid \<and> c_id c \<noteq> cid)
                                           (courses db)))")
    case (Some other)
    then show ?thesis by (simp add: DatabaseManager_assign_instructor_to_course_def)
  next
    case None
    let ?Q = "\<lambda>c. c_id c = cid \<and> c_instructor c \<noteq> None"
    from assms have "?Q c" by simp
    with assms(1) obtain y :: course_row
      where "fetchone (map c_instructor (filter ?Q (courses db))) = Some (c_instructor y)"
      by (rule fetchone_filter_member [where f = c_instructor]) blast
    with None show ?thesis by (simp add: DatabaseManager_assign_instructor_to_course_def)
  qed
next
  show "distinct (course_ids db)
          \<and> filter (\<lambda>c. c_instructor c = Some iid \<and> c_id c \<noteq> cid) (courses db) = [] \<longrightarrow>
        DatabaseManager_assign_instructor_to_course iid cid db
          = (db, [CourseAlreadyHasInstructor cid (Some iid)], False)"
  proof
    assume h: "distinct (course_ids db)
          \<and> filter (\<lambda>c. c_instructor c = Some iid \<and> c_id c \<noteq> cid) (courses db) = []"
    then have "distinct (map c_id (courses db))" by (simp add: course_ids_def)
    from filter_distinct_key [OF this assms(1), of "\<lambda>c. c_instructor c \<noteq> None"] assms
    have "filter (\<lambda>y. c_id y = cid \<and> c_instructor y \<noteq> None) (courses db) = [c]" by simp
    with h assms show "DatabaseManager_assign_instructor_to_course iid cid db
          = (db, [CourseAlreadyHasInstructor cid (Some iid)], False)"
      by (simp add: DatabaseManager_assign_instructor_to_course_def fetchone_def)
  qed
qed

theorem reassign_same_witness:
  "\<lparr>c_id = ''C1'', c_name = ''Algo'', c_instructor = Some ''I1''\<rparr> \<in> set (courses school_taught)
   \<and> distinct (course_ids school_taught)
   \<and> filter (\<lambda>c. c_instructor c = Some ''I1'' \<and> c_id c \<noteq> ''C1'') (courses school_taught) = []
   \<and> DatabaseManager_assign_instructor_to_course ''I1'' ''C1'' school_taught
       = (school_taught, [CourseAlreadyHasInstructor ''C1'' (Some ''I1'')], False)"
proof -
  have h: "\<lparr>c_id = ''C1'', c_name = ''Algo'', c_instructor = Some ''I1''\<rparr> \<in> set (courses school_taught)"
    by (simp add: school_taught_def)
  have k: "distinct (course_ids school_taught)
     \<and> filter (\<lambda>c. c_instructor c = Some ''I1'' \<and> c_id c \<noteq> ''C1'') (courses school_taught) = []"
    by (simp add: school_taught_def course_ids_def)
  show ?thesis
    using h k reassign_same [OF h, of "''C1''" "''I1''"] by simp
qed

section \<open>Deleting\<close>

lemma sql_course_students_rows:
  "r \<in> set (sql_course_students cid db) \<Longrightarrow> r \<in> set (students db) \<and> (s_id r, cid) \<in> set (regs db)"
  by (auto simp: sql_course_students_def)

text \<open>
  Claim C4. Deleting a stored student succeeds in both layers and yields one new
  store in which the student row and every junction row of that student are gone
  together, so that no course lists the student any more; courses and instructors
  are untouched.
\<close>

theorem delete_student_cascade:
  assumes "sid \<in> set (student_ids db)"
  shows "\<exists>db'. DatabaseManager_delete_student sid db = (db', True)
           \<and> delete_student sid db = (db', True)
           \<and> students db' = filter (\<lambda>r. s_id r \<noteq> sid) (students db)
           \<and> regs db' = filter (\<lambda>p. fst p \<noteq> sid) (regs db)
           \<and> courses db' = courses db \<and> instructors db' = instructors db
           \<and> sid \<notin> set (student_ids db')
           \<and> (\<forall>cid. (sid, cid) \<notin> set (regs db'))
           \<and> (\<forall>cid. sid \<notin> set (map s_id (sql_course_students cid db')))"
proof -
  let ?db' = "db\<lparr>students := filter (\<lambda>r. s_id r \<noteq> sid) (students db),
                 regs := filter (\<lambda>p. fst p \<noteq> sid) (regs db)\<rparr>"
  from assms have pos: "0 < length (filter (\<lambda>r. s_id r = sid) (students db))"
    by (auto simp: student_ids_def filter_empty_conv)
  have a: "DatabaseManager_delete_student sid db = (?db', True)"
    using pos by (simp add: DatabaseManager_delete_student_def sql_delete_regs_of_student_def
        sql_delete_student_def student_ids_def)
  have b: "delete_student sid db = (?db', True)"
    using assms by (simp add: delete_student_def run_def sql_delete_student_def)
  have c: "\<forall>cid. sid \<notin> set (map s_id (sql_course_students cid ?db'))"
    by (auto dest: sql_course_students_rows)
  show ?thesis
    using a b c by (intro exI [of _ ?db']) (auto simp: student_ids_def)
qed


theorem delete_student_cascade_witness:
  "''S1'' \<in> set (student_ids school_taught)
   \<and> (\<exists>db'. DatabaseManager_delete_student ''S1'' school_taught = (db', True)
           \<and> delete_student ''S1'' school_taught = (db', True)
           \<and> students db' = filter (\<lambda>r. s_id r \<noteq> ''S1'') (students school_taught)
           \<and> regs db' = filter (\<lambda>p. fst p \<noteq> ''S1'') (regs school_taught)
           \<and> courses db' = courses school_taught \<and> instructors db' = instructors school_taught
           \<and> ''S1'' \<notin> set (student_ids db')
           \<and> (\<forall>cid. (''S1'', cid) \<notin> set (regs db'))
           \<and> (\<forall>cid. ''S1'' \<notin> set (map s_id (sql_course_students cid db'))))"
proof -
  have h: "''S1'' \<in> set (student_ids school_taught)"
    by (simp add: school_taught_def student_ids_def)
  show ?thesis
    using h delete_student_cascade [OF h] by simp
qed

lemma map_clear_id: "map c_id (map (\<lambda>c. if c_instructor c = Some iid then c\<lparr>c_instructor := None\<rparr> else c) cs) = map c_id cs"
  by (induction cs) auto

lemma map_clear_name: "map c_name (map (\<lambda>c. if c_instructor c = Some iid then c\<lparr>c_instructor := None\<rparr> else c) cs) = map c_name cs"
  by (induction cs) auto

lemma map_clear_instructor:
  "map c_instructor (map (\<lambda>c. if c_instructor c = Some iid then c\<lparr>c_instructor := None\<rparr> else c) cs)
     = map (\<lambda>c. if c_instructor c = Some iid then None else c_instructor c) cs"
  by (induction cs) auto

text \<open>
  Claim C5. Deleting a stored instructor succeeds in both layers; every course that
  referenced the instructor has its reference cleared, and otherwise the courses keep
  their ids, names and references in the same order, and the junction table, the
  students and every course's enrolled students are unchanged.
\<close>

theorem delete_instructor_clears:
  assumes "iid \<in> set (instructor_ids db)"
  shows "\<exists>db'. DatabaseManager_delete_instructor iid db = (db', True)
           \<and> delete_instructor iid db = (db', True)
           \<and> iid \<notin> set (instructor_ids db')
           \<and> map c_id (courses db') = map c_id (courses db)
           \<and> map c_name (courses db') = map c_name (courses db)
           \<and> map c_instructor (courses db')
                = map (\<lambda>c. if c_instructor c = Some iid then None else c_instructor c) (courses db)
           \<and> regs db' = regs db \<and> students db' = students db
           \<and> (\<forall>cid. sql_course_students cid db' = sql_course_students cid db)"
proof -
  let ?db' = "db\<lparr>instructors := filter (\<lambda>r. i_id r \<noteq> iid) (instructors db),
                 courses := map (\<lambda>c. if c_instructor c = Some iid
                                      then c\<lparr>c_instructor := None\<rparr> else c) (courses db)\<rparr>"
  from assms have pos: "0 < length (filter (\<lambda>r. i_id r = iid) (instructors db))"
    by (auto simp: instructor_ids_def filter_empty_conv)
  have a: "DatabaseManager_delete_instructor iid db = (?db', True)"
    using pos by (simp add: DatabaseManager_delete_instructor_def sql_clear_instructor_def
        sql_delete_instructor_def instructor_ids_def)
  have b: "delete_instructor iid db = (?db', True)"
    using assms by (simp add: delete_instructor_def run_def sql_delete_instructor_def)
  have c: "\<forall>cid. sql_course_students cid ?db' = sql_course_students cid db"
    by (simp add: sql_course_students_def)
  show ?thesis
    using a b c
    by (intro exI [of _ ?db'])
       (auto simp: instructor_ids_def map_clear_id map_clear_name map_clear_instructor)
qed

theorem delete_instructor_clears_witness:
  "''I1'' \<in> set (instructor_ids school_taught)
   \<and> (\<exists>db'. DatabaseManager_delete_instructor ''I1'' school_taught = (db', True)
           \<and> delete_instructor ''I1'' school_taught = (db', True)
           \<and> ''I1'' \<notin> set (instructor_ids db')
           \<and> map c_id (courses db') = map c_id (courses school_taught)
           \<and> map c_name (courses db') = map c_name (courses school_taught)
           \<and> map c_instructor (courses db')
                = map (\<lambda>c. if c_instructor c = Some ''I1'' then None else c_instructor c)
                      (courses school_taught)
           \<and> regs db' = regs school_taught \<and> students db' = students school_taught
           \<and> (\<forall>cid. sql_course_students cid db' = sql_course_students cid school_taught))"
proof -
  have h: "''I1'' \<in> set (instructor_ids school_taught)"
    by (simp add: school_taught_def instructor_ids_def)
  show ?thesis
    using h delete_instructor_clears [OF h] by simp
qed

section \<open>Creating and reading\<close>

lemmas email_defs = match_to_dollar_def full_match_def email_pattern_def one_or_more_def
  alnum_def alpha_def in_range_def


lemma ann_email_match: "match_to_dollar email_pattern ''ann@x.com''"
  by (simp add: email_defs)




text \<open>
  Claim C10. An age for which \<^verbatim>\<open>int(age)\<close> raises is rejected by \<^verbatim>\<open>valid_age\<close>, but
  \<^verbatim>\<open>add_student\<close> and \<^verbatim>\<open>update_student\<close> do not consult it: they behave exactly as
  if age 0 had been passed, so with a fresh id and email the row is inserted with age
  0, and an existing row is updated to age 0; both return \<^verbatim>\<open>True\<close>.
\<close>

theorem unparsable_age_coerced:
  assumes "int_of raw = None"
  shows "\<not> valid_age int_of raw
         \<and> add_student int_of nm raw em sid db = add_student Some nm (0::int) em sid db
         \<and> update_student int_of uid nm raw em db = update_student Some uid nm (0::int) em db
         \<and> (sid \<notin> set (student_ids db) \<and> em \<notin> set (map s_email (students db)) \<longrightarrow>
              add_student int_of nm raw em sid db
                = (db\<lparr>students := students db @
                       [\<lparr>s_id = sid, s_name = nm, s_age = 0, s_email = em\<rparr>]\<rparr>, True))
         \<and> (uid \<in> set (student_ids db)
              \<and> em \<notin> set (map s_email (filter (\<lambda>r. s_id r \<noteq> uid) (students db))) \<longrightarrow>
              update_student int_of uid nm raw em db
                = (db\<lparr>students :=
                       map (\<lambda>r. if s_id r = uid
                                then r\<lparr>s_name := nm, s_age := 0, s_email := em\<rparr> else r)
                           (students db)\<rparr>, True))"
  using assms
  by (simp add: valid_age_def add_student_def update_student_def run_def
      sql_insert_student_def sql_update_student_def sqlite_int_ok_def)

theorem unparsable_age_coerced_witness:
  "int_of_text ''abc'' = None
   \<and> \<not> valid_age int_of_text ''abc''
   \<and> ''S2'' \<notin> set (student_ids school) \<and> ''zed@x.com'' \<notin> set (map s_email (students school))
   \<and> add_student int_of_text ''Zed'' ''abc'' ''zed@x.com'' ''S2'' school
       = (school\<lparr>students := students school @
            [\<lparr>s_id = ''S2'', s_name = ''Zed'', s_age = 0, s_email = ''zed@x.com''\<rparr>]\<rparr>, True)
   \<and> ''S1'' \<in> set (student_ids school)
   \<and> ''zed@x.com'' \<notin> set (map s_email (filter (\<lambda>r. s_id r \<noteq> ''S1'') (students school)))
   \<and> update_student int_of_text ''S1'' ''Zed'' ''abc'' ''zed@x.com'' school
       = (school\<lparr>students :=
            map (\<lambda>r. if s_id r = ''S1''
                     then r\<lparr>s_name := ''Zed'', s_age := 0, s_email := ''zed@x.com''\<rparr> else r)
                (students school)\<rparr>, True)"
proof -
  have h: "int_of_text ''abc'' = None" by (simp add: int_of_text_def in_range_def)
  have k: "''S2'' \<notin> set (student_ids school) \<and> ''zed@x.com'' \<notin> set (map s_email (students school))
           \<and> ''S1'' \<in> set (student_ids school)
           \<and> ''zed@x.com'' \<notin> set (map s_email (filter (\<lambda>r. s_id r \<noteq> ''S1'') (students school)))"
    by (simp add: school_def student_ids_def)
  show ?thesis
    using h k unparsable_age_coerced [where int_of = int_of_text and raw = "''abc''" and nm = "''Zed''"
        and em = "''zed@x.com''" and sid = "''S2''" and db = school and uid = "''S1''", OF h]
    by blast
qed

lemma dropWhile_rev_prefix:
  assumes "t = [] \<or> \<not> P (hd t)"
  shows "dropWhile P (rev (dropWhile P (rev t))) = rev (dropWhile P (rev t))"
proof (cases "dropWhile P (rev t) = []")
  case True
  show ?thesis unfolding True by simp
next
  case False
  let ?u = "rev (dropWhile P (rev t))"
  have "rev (?u @ rev (takeWhile P (rev t))) = rev t" by simp
  then have "?u @ rev (takeWhile P (rev t)) = t" by (simp only: rev_is_rev_conv)
  then have split: "t = ?u @ rev (takeWhile P (rev t))" by (rule sym)
  from False have ne: "?u \<noteq> []" by simp
  with split have "hd t = hd ?u" by (metis hd_append2)
  moreover from ne split have "t \<noteq> []" by auto
  ultimately have "\<not> P (hd ?u)" using assms by simp
  then show ?thesis by (simp add: dropWhile_eq_self_iff)
qed

lemma strip_strip: "strip (strip s) = strip s"
proof -
  let ?t = "dropWhile py_isspace s"
  have "?t = [] \<or> \<not> py_isspace (hd ?t)" using hd_dropWhile [of py_isspace s] by blast
  then have "dropWhile py_isspace (strip s) = strip s"
    unfolding strip_def by (rule dropWhile_rev_prefix)
  then show ?thesis by (simp add: strip_def)
qed

lemma Student_init_stored:
  assumes "Student_init nm a em sid0 = Inr st"
  shows "Student_init (name st) (age st) (email st) (student_id st) = Inr st"
  using assms
  by (auto simp: Student_init_def Person_valid_name_def Person_valid_age_def
      Person_valid_email_def Student_valid_student_id_def strip_strip
      split: if_splits)

lemma sql_student_courses_none:
  assumes "\<forall>p \<in> set (regs db). fst p \<noteq> sid"
  shows "sql_student_courses sid db = []"
proof -
  have "\<And>c :: course_row. filter (\<lambda>p. p = (sid, c_id c)) (regs db) = []"
    using assms by (auto simp: filter_empty_conv)
  then show ?thesis by (simp add: sql_student_courses_def)
qed

text \<open>
  Claim C9, as stated, fails: the age \<open>2\<^sup>6\<^sup>3\<close> passes \<^verbatim>\<open>valid_age\<close>, the id and the
  email are fresh, but binding the age raises \<^verbatim>\<open>OverflowError\<close>;
  \<^verbatim>\<open>utils.add_student\<close> returns \<^verbatim>\<open>False\<close> and \<^verbatim>\<open>get_student\<close> finds nothing.
\<close>

theorem create_read_counterexample:
  "valid_age int_of_text ''9223372036854775808''
   \<and> strip ''Ann'' = ''Ann''
   \<and> match_to_dollar email_pattern ''ann@x.com''
   \<and> ''S1'' \<notin> set (student_ids empty_store)
   \<and> ''ann@x.com'' \<notin> set (map s_email (students empty_store))
   \<and> add_student int_of_text ''Ann'' ''9223372036854775808'' ''ann@x.com'' ''S1'' empty_store
       = (empty_store, False)
   \<and> get_student ''S1'' empty_store = None"
  by (simp add: ann_email_match valid_age_def int_of_text_def in_range_def strip_def
      py_isspace_def student_ids_def empty_store_def add_student_def run_def
      sql_insert_student_def sqlite_int_ok_def get_student_def fetchone_def)

lemma add_student_fresh:
  assumes "int_of raw = Some a" and "0 \<le> a" and "a < 2 ^ 63"
    and "sid \<notin> set (student_ids db)" and "em \<notin> set (map s_email (students db))"
  shows "add_student int_of nm raw em sid db
           = (db\<lparr>students := students db @
                  [\<lparr>s_id = sid, s_name = nm, s_age = a, s_email = em\<rparr>]\<rparr>, True)"
  using assms
  by (simp add: add_student_def run_def sql_insert_student_def sqlite_int_ok_def)

lemma filter_fresh_id:
  "sid \<notin> set (student_ids db) \<Longrightarrow> filter (\<lambda>r. s_id r = sid) (students db) = []"
  by (auto simp: student_ids_def filter_empty_conv)

lemma DatabaseManager_add_student_fresh:
  assumes "0 \<le> age st" and "age st < 2 ^ 63"
    and "student_id st \<notin> set (student_ids db)" and "email st \<notin> set (map s_email (students db))"
  shows "DatabaseManager_add_student st db
           = Inr (db\<lparr>students := students db @
                  [\<lparr>s_id = student_id st, s_name = name st, s_age = age st,
                    s_email = email st\<rparr>]\<rparr>, True)"
  using assms
  by (simp add: DatabaseManager_add_student_def sql_insert_student_def sqlite_int_ok_def)

lemma Student_init_age: "Student_init nm a em sid0 = Inr st \<Longrightarrow> age st = a \<and> 0 \<le> a"
  by (auto simp: Student_init_def Person_valid_name_def Person_valid_age_def
      Person_valid_email_def Student_valid_student_id_def split: if_splits)

lemma Student_init_no_courses: "Student_init nm a em sid0 = Inr st \<Longrightarrow> registered_courses st = []"
  by (auto simp: Student_init_def Person_valid_name_def Person_valid_age_def
      Person_valid_email_def Student_valid_student_id_def split: if_splits)

lemma DatabaseManager_get_student_after_add:
  assumes init: "Student_init nm a em sid0 = Inr st"
    and fresh: "student_id st \<notin> set (student_ids db)"
  defines "db' \<equiv> db\<lparr>students := students db @
                  [\<lparr>s_id = student_id st, s_name = name st, s_age = age st,
                    s_email = email st\<rparr>]\<rparr>"
  shows "DatabaseManager_get_student (student_id st) db'
           = (case DatabaseManager_get_student_courses (student_id st) db' of
                Inl e \<Rightarrow> Inl e
              | Inr cs \<Rightarrow> Inr (Some (st\<lparr>registered_courses := cs\<rparr>)))"
  using Student_init_stored [OF init] filter_fresh_id [OF fresh]
  by (simp add: DatabaseManager_get_student_def db'_def fetchone_def)

text \<open>
  Claim C9, amended. For an age \<open>a\<close> with \<open>0 \<le> a < 2\<^sup>6\<^sup>3\<close>, a fresh id and a fresh
  email: \<^verbatim>\<open>utils.add_student\<close> returns \<^verbatim>\<open>True\<close> and \<^verbatim>\<open>utils.get_student\<close> then
  returns exactly the id, name and email supplied and the age \<open>a\<close> that \<^verbatim>\<open>int()\<close> gave.
  For a constructed \<^verbatim>\<open>Student\<close>, \<^verbatim>\<open>DatabaseManager.add_student\<close> returns \<^verbatim>\<open>True\<close>,
  and \<^verbatim>\<open>DatabaseManager.get_student\<close>, whenever it returns, returns a student with the
  same name, age, email and id as the constructed one (name and id as trimmed by the
  constructor); it does return, with no registered courses, when the junction table
  holds no row for that id.
\<close>

theorem create_read_roundtrip:
  assumes "0 \<le> a" and "a < 2 ^ 63"
  shows "(int_of raw = Some a \<and> sid \<notin> set (student_ids db)
            \<and> em \<notin> set (map s_email (students db)) \<longrightarrow>
          (\<exists>db'. add_student int_of nm raw em sid db = (db', True)
             \<and> get_student sid db' = Some \<lparr>s_id = sid, s_name = nm, s_age = a, s_email = em\<rparr>))
       \<and> (Student_init nm a em sid = Inr st \<and> student_id st \<notin> set (student_ids db)
            \<and> email st \<notin> set (map s_email (students db)) \<longrightarrow>
          (\<exists>db'. DatabaseManager_add_student st db = Inr (db', True)
             \<and> (\<forall>r. DatabaseManager_get_student (student_id st) db' = Inr r \<longrightarrow>
                    (\<exists>cs. r = Some (st\<lparr>registered_courses := cs\<rparr>)))
             \<and> ((\<forall>p \<in> set (regs db). fst p \<noteq> student_id st) \<longrightarrow>
                    DatabaseManager_get_student (student_id st) db' = Inr (Some st))))"
proof (intro conjI impI)
  assume h: "int_of raw = Some a \<and> sid \<notin> set (student_ids db)
            \<and> em \<notin> set (map s_email (students db))"
  let ?db' = "db\<lparr>students := students db @
                  [\<lparr>s_id = sid, s_name = nm, s_age = a, s_email = em\<rparr>]\<rparr>"
  from h assms have "add_student int_of nm raw em sid db = (?db', True)"
    by (simp add: add_student_fresh)
  moreover from h have "get_student sid ?db'
                          = Some \<lparr>s_id = sid, s_name = nm, s_age = a, s_email = em\<rparr>"
    by (simp add: get_student_def fetchone_def filter_fresh_id)
  ultimately show "\<exists>db'. add_student int_of nm raw em sid db = (db', True)
             \<and> get_student sid db' = Some \<lparr>s_id = sid, s_name = nm, s_age = a, s_email = em\<rparr>"
    by blast
next
  assume h: "Student_init nm a em sid = Inr st \<and> student_id st \<notin> set (student_ids db)
            \<and> email st \<notin> set (map s_email (students db))"
  let ?db' = "db\<lparr>students := students db @
                  [\<lparr>s_id = student_id st, s_name = name st, s_age = age st,
                    s_email = email st\<rparr>]\<rparr>"
  from h have init: "Student_init nm a em sid = Inr st" by simp
  from h have fresh: "student_id st \<notin> set (student_ids db)" by simp
  from Student_init_age [OF init] assms have "0 \<le> age st" and "age st < 2 ^ 63" by simp_all
  with h have add: "DatabaseManager_add_student st db = Inr (?db', True)"
    by (simp add: DatabaseManager_add_student_fresh)
  note get = DatabaseManager_get_student_after_add [OF init fresh]
  have ret: "\<forall>r. DatabaseManager_get_student (student_id st) ?db' = Inr r \<longrightarrow>
                    (\<exists>cs. r = Some (st\<lparr>registered_courses := cs\<rparr>))"
    by (auto simp: get split: sum.splits)
  have none: "(\<forall>p \<in> set (regs db). fst p \<noteq> student_id st) \<longrightarrow>
                    DatabaseManager_get_student (student_id st) ?db' = Inr (Some st)"
  proof
    assume "\<forall>p \<in> set (regs db). fst p \<noteq> student_id st"
    then have "sql_student_courses (student_id st) ?db' = []"
      by (intro sql_student_courses_none) simp
    then have "DatabaseManager_get_student_courses (student_id st) ?db' = Inr []"
      by (simp add: DatabaseManager_get_student_courses_def)
    with Student_init_no_courses [OF init]
    show "DatabaseManager_get_student (student_id st) ?db' = Inr (Some st)"
      by (simp add: get)
  qed
  from add ret none
  show "\<exists>db'. DatabaseManager_add_student st db = Inr (db', True)
             \<and> (\<forall>r. DatabaseManager_get_student (student_id st) db' = Inr r \<longrightarrow>
                    (\<exists>cs. r = Some (st\<lparr>registered_courses := cs\<rparr>)))
             \<and> ((\<forall>p \<in> set (regs db). fst p \<noteq> student_id st) \<longrightarrow>
                    DatabaseManager_get_student (student_id st) db' = Inr (Some st))"
    by blast
qed

lemma zed_email_match: "match_to_dollar email_pattern ''zed@x.com''"
  by (simp add: email_defs)

theorem create_read_roundtrip_witness:
  "(0::int) \<le> 20 \<and> (20::int) < 2 ^ 63
   \<and> int_of_text ''20'' = Some 20 \<and> ''S2'' \<notin> set (student_ids school)
   \<and> ''zed@x.com'' \<notin> set (map s_email (students school))
   \<and> (\<exists>db'. add_student int_of_text ''Zed'' ''20'' ''zed@x.com'' ''S2'' school = (db', True)
         \<and> get_student ''S2'' db'
             = Some \<lparr>s_id = ''S2'', s_name = ''Zed'', s_age = 20, s_email = ''zed@x.com''\<rparr>)
   \<and> Student_init ''Zed'' 20 ''zed@x.com'' ''S2''
       = Inr \<lparr>name = ''Zed'', age = 20, email = ''zed@x.com'', student_id = ''S2'',
              registered_courses = []\<rparr>
   \<and> regs school = []
   \<and> (\<exists>db'. DatabaseManager_add_student
               \<lparr>name = ''Zed'', age = 20, email = ''zed@x.com'', student_id = ''S2'',
                registered_courses = []\<rparr> school = Inr (db', True)
         \<and> DatabaseManager_get_student ''S2'' db'
             = Inr (Some \<lparr>name = ''Zed'', age = 20, email = ''zed@x.com'', student_id = ''S2'',
                          registered_courses = []\<rparr>))"
proof -
  let ?st = "\<lparr>name = ''Zed'', age = 20, email = ''zed@x.com'', student_id = ''S2'',
              registered_courses = []\<rparr>"
  have r: "(0::int) \<le> 20" "(20::int) < 2 ^ 63" by simp_all
  have h: "int_of_text ''20'' = Some 20 \<and> ''S2'' \<notin> set (student_ids school)
           \<and> ''zed@x.com'' \<notin> set (map s_email (students school))"
    by (simp add: int_of_text_def in_range_def school_def student_ids_def)
  have i: "Student_init ''Zed'' 20 ''zed@x.com'' ''S2'' = Inr ?st"
    by (simp add: Student_init_def Person_valid_name_def Person_valid_age_def
        Person_valid_email_def Student_valid_student_id_def strip_def py_isspace_def
        zed_email_match)
  have e: "regs school = []" by (simp add: school_def)
  then have k: "\<forall>p \<in> set (regs school). fst p \<noteq> ''S2''" by simp
  have f: "student_id ?st = ''S2'' \<and> email ?st = ''zed@x.com''" by simp
  from create_read_roundtrip [where a = 20 and int_of = int_of_text and raw = "''20''"
      and sid = "''S2''" and db = school and em = "''zed@x.com''" and nm = "''Zed''"
      and st = ?st, OF r] h i k f e
  show ?thesis by (simp only: r simp_thms) blast
qed

end
